theory Spec2Isabelle
  imports Main
begin

section \<open>The store: tables \<open>test_cases\<close> and \<open>test_executions\<close>\<close>

text \<open>
  The coordinator keeps its state in one SQLite file with two tables.
  \<open>test_cases\<close> is created by \<open>parse_robot_tests.create_database\<close>
  (\<open>id INTEGER PRIMARY KEY AUTOINCREMENT\<close>, name, path, suite, date) and gets its
  \<open>status\<close> column (\<open>TEXT DEFAULT "pending"\<close>) from the server start-up code;
  \<open>test_executions\<close> has \<open>execution_id TEXT PRIMARY KEY\<close>. Statuses are plain
  text in the database, so they are strings here. A timestamp is a number of clock ticks.
\<close>

type_synonym timestamp = nat

record test_case =
  tc_id :: int
  test_name :: string
  file_path :: string
  suite_name :: string
  parsed_date :: timestamp
  tc_status :: string

record test_execution =
  execution_id :: string
  test_id :: int
  node_id :: string
  ex_status :: string
  start_time :: timestamp
  end_time :: "timestamp option"
  result :: "string option"

text \<open>
  \<open>autoinc_seq\<close> is the row SQLite keeps in \<open>sqlite_sequence\<close> for an
  \<open>AUTOINCREMENT\<close> key: the largest id ever handed out, which a \<open>DELETE\<close> does
  not lower.
\<close>

record store =
  test_cases :: "test_case list"
  test_executions :: "test_execution list"
  autoinc_seq :: int

subsection \<open>HTTP responses of \<open>server.py\<close>\<close>

datatype body =
    Error string
  | Message string
  | Assigned string int string string string

type_synonym response = "nat \<times> body"

text \<open>
  \<open>get_db_connection\<close> returns \<open>None\<close> when the database file does not exist; the
  handlers then answer 500. The database a handler sees is therefore a \<open>store option\<close>.
\<close>

subsection \<open>\<open>GET /api/next_test\<close>\<close>

text \<open>
  Lines 46--54: \<open>SELECT ... WHERE status = "pending" ORDER BY id LIMIT 1\<close> followed by
  \<open>fetchone\<close>.
\<close>

definition select_pending :: "test_case list \<Rightarrow> test_case option" where
  "select_pending tcs =
     (case sort_key tc_id (filter (\<lambda>t. tc_status t = ''pending'') tcs) of
        [] \<Rightarrow> None
      | t # _ \<Rightarrow> Some t)"

text \<open>Lines 63--67: \<open>UPDATE test_cases SET status = "running" WHERE id = ?\<close>.\<close>

definition update_case_status :: "string \<Rightarrow> int \<Rightarrow> test_case list \<Rightarrow> test_case list" where
  "update_case_status st i tcs =
     map (\<lambda>t. if tc_id t = i then t\<lparr>tc_status := st\<rparr> else t) tcs"

text \<open>
  Lines 71--75: the \<open>INSERT INTO test_executions\<close>; the columns \<open>end_time\<close> and
  \<open>result\<close> are not given and stay \<open>NULL\<close>.
\<close>

definition new_execution :: "string \<Rightarrow> int \<Rightarrow> string \<Rightarrow> timestamp \<Rightarrow> test_execution" where
  "new_execution eid tid node now =
     \<lparr>execution_id = eid, test_id = tid, node_id = node, ex_status = ''running'',
      start_time = now, end_time = None, result = None\<rparr>"

text \<open>
  Lines 60--77, the write transaction of the handler: mark the selected row running,
  insert the execution record, commit.
\<close>

definition claim_commit :: "store \<Rightarrow> int \<Rightarrow> string \<Rightarrow> string \<Rightarrow> timestamp \<Rightarrow> store" where
  "claim_commit s tid node eid now =
     s\<lparr>test_cases := update_case_status ''running'' tid (test_cases s),
       test_executions := test_executions s @ [new_execution eid tid node now]\<rparr>"

text \<open>
  The handler. \<open>node_arg\<close> is the query parameter \<open>node_id\<close> (default
  \<open>unknown-node\<close>), \<open>eid\<close> the value \<open>str(uuid.uuid4())\<close> produces and \<open>now\<close> the
  clock. \<open>execution_id\<close> is the primary key of \<open>test_executions\<close>: inserting a value
  that is already there raises \<open>sqlite3.IntegrityError\<close> before the commit, the request
  ends with status 500 and the open transaction is rolled back.
\<close>

definition next_test ::
  "store option \<Rightarrow> string option \<Rightarrow> string \<Rightarrow> timestamp \<Rightarrow> response \<times> store option" where
  "next_test db node_arg eid now =
     (let node = (case node_arg of None \<Rightarrow> ''unknown-node'' | Some n \<Rightarrow> n) in
      case db of
        None \<Rightarrow> ((500, Error ''Database not found''), db)
      | Some s \<Rightarrow>
          (case select_pending (test_cases s) of
             None \<Rightarrow> ((404, Message ''No tests available''), db)
           | Some test \<Rightarrow>
               if eid \<in> set (map execution_id (test_executions s))
               then ((500, Error ''IntegrityError''), db)
               else ((200, Assigned eid (tc_id test) (test_name test) (suite_name test)
                             (file_path test)),
                     Some (claim_commit s (tc_id test) node eid now))))"

subsection \<open>\<open>POST /api/update_test\<close>\<close>

text \<open>
  The JSON body of the request. A field is \<open>None\<close> when the key is absent; an absent
  body or an empty object has every field absent. Values are strings.
\<close>

record update_request =
  req_execution_id :: "string option"
  req_status :: "string option"
  req_result :: "string option"

text \<open>Line 110: \<open>SELECT test_id FROM test_executions WHERE execution_id = ?\<close>.\<close>

definition select_test_id :: "string \<Rightarrow> test_execution list \<Rightarrow> int option" where
  "select_test_id eid exs = map_option test_id (find (\<lambda>e. execution_id e = eid) exs)"

text \<open>Lines 120--124: \<open>UPDATE test_executions SET status, end_time, result\<close>.\<close>

definition update_execution ::
  "string \<Rightarrow> string \<Rightarrow> timestamp \<Rightarrow> string option \<Rightarrow> test_execution list \<Rightarrow> test_execution list" where
  "update_execution eid st now res exs =
     map (\<lambda>e. if execution_id e = eid
               then e\<lparr>ex_status := st, end_time := Some now, result := res\<rparr>
               else e) exs"

definition update_test ::
  "store option \<Rightarrow> update_request \<Rightarrow> timestamp \<Rightarrow> response \<times> store option" where
  "update_test db data now =
     (case (req_execution_id data, req_status data) of
        (Some eid, Some st) \<Rightarrow>
          (case db of
             None \<Rightarrow> ((500, Error ''Database not found''), db)
           | Some s \<Rightarrow>
               (case select_test_id eid (test_executions s) of
                  None \<Rightarrow> ((404, Error ''Execution ID not found''), db)
                | Some tid \<Rightarrow>
                    ((200, Message ''Test status updated''),
                     Some (s\<lparr>test_executions :=
                               update_execution eid st now (req_result data) (test_executions s),
                             test_cases := update_case_status st tid (test_cases s)\<rparr>))))
      | _ \<Rightarrow> ((400, Error ''Missing required fields''), db))"

subsection \<open>\<open>POST /api/reset\<close> and \<open>reset_test_statuses\<close>\<close>

text \<open>
  \<open>UPDATE test_cases SET status = "pending"\<close> with no \<open>WHERE\<close>. The handler reports
  \<open>cursor.rowcount\<close>, the number of rows of the table.
\<close>

definition reset_statuses :: "store \<Rightarrow> store" where
  "reset_statuses s =
     s\<lparr>test_cases := map (\<lambda>t. t\<lparr>tc_status := ''pending''\<rparr>) (test_cases s)\<rparr>"

datatype reset_body = ResetError string | ResetCount nat

definition reset_tests :: "store option \<Rightarrow> (nat \<times> reset_body) \<times> store option" where
  "reset_tests db =
     (case db of
        None \<Rightarrow> ((500, ResetError ''Database not found''), db)
      | Some s \<Rightarrow> ((200, ResetCount (length (test_cases s))), Some (reset_statuses s)))"

text \<open>
  \<open>k8s_test_distributor.reset_test_statuses\<close> runs the same statement on an open
  connection.
\<close>

definition reset_test_statuses :: "store \<Rightarrow> store" where
  "reset_test_statuses s = reset_statuses s"

subsection \<open>Handlers that overlap\<close>

text \<open>
  \<open>next_test\<close> opens a fresh connection, and the \<open>sqlite3\<close> module starts a
  transaction only at the first writing statement, so the \<open>SELECT\<close> of lines 46--54
  runs before any transaction or lock is held; the handler takes no lock of its own. The
  write transaction (lines 63--77) is atomic. A handler is therefore two atomic steps,
  and the statements of another handler may fall between them. A configuration is the
  shared store and the handlers in flight; a schedule names, step by step, the handler
  that moves next.
\<close>

datatype handler =
    Start "string option" string timestamp
  | Selected test_case string string timestamp
  | Finished response

fun handler_step :: "store \<Rightarrow> handler \<Rightarrow> store \<times> handler" where
  "handler_step s (Start node_arg eid now) =
     (case select_pending (test_cases s) of
        None \<Rightarrow> (s, Finished (404, Message ''No tests available''))
      | Some test \<Rightarrow>
          (s, Selected test (case node_arg of None \<Rightarrow> ''unknown-node'' | Some n \<Rightarrow> n) eid now))"
| "handler_step s (Selected test node eid now) =
     (if eid \<in> set (map execution_id (test_executions s))
      then (s, Finished (500, Error ''IntegrityError''))
      else (claim_commit s (tc_id test) node eid now,
            Finished (200, Assigned eid (tc_id test) (test_name test) (suite_name test)
                             (file_path test))))"
| "handler_step s (Finished r) = (s, Finished r)"

fun run_schedule :: "nat list \<Rightarrow> store \<times> handler list \<Rightarrow> store \<times> handler list" where
  "run_schedule [] c = c"
| "run_schedule (i # sched) (s, hs) =
     (if i < length hs
      then (case handler_step s (hs ! i) of (s', h') \<Rightarrow> run_schedule sched (s', hs[i := h']))
      else run_schedule sched (s, hs))"

subsection \<open>Calls served one after another\<close>

fun next_test_seq ::
  "store \<Rightarrow> (string option \<times> string \<times> timestamp) list \<Rightarrow> response list \<times> store" where
  "next_test_seq s [] = ([], s)"
| "next_test_seq s ((node_arg, eid, now) # calls) =
     (case next_test (Some s) node_arg eid now of
        (r, db') \<Rightarrow>
          (case next_test_seq (case db' of None \<Rightarrow> s | Some s' \<Rightarrow> s') calls of
             (rs, s'') \<Rightarrow> (r # rs, s'')))"

text \<open>The \<open>test_id\<close> of a 200 response.\<close>

fun assigned_id :: "response \<Rightarrow> int option" where
  "assigned_id (code, Assigned eid tid name suite path) = (if code = 200 then Some tid else None)"
| "assigned_id (code, Error e) = None"
| "assigned_id (code, Message m) = None"

definition assigned_ids :: "response list \<Rightarrow> int list" where
  "assigned_ids rs = concat (map (\<lambda>r. case assigned_id r of None \<Rightarrow> [] | Some i \<Rightarrow> [i]) rs)"

text \<open>The ids of the tests that have an execution record with status \<open>running\<close>.\<close>

definition running_ids :: "store \<Rightarrow> int list" where
  "running_ids s = map test_id (filter (\<lambda>e. ex_status e = ''running'') (test_executions s))"

text \<open>
  The ids of the pending tests, and the invariant of the claim: at most one running
  execution per test, and none for a test that is still pending.
\<close>

definition pending_ids :: "store \<Rightarrow> int list" where
  "pending_ids s = map tc_id (filter (\<lambda>t. tc_status t = ''pending'') (test_cases s))"

definition claim_inv :: "store \<Rightarrow> bool" where
  "claim_inv s \<longleftrightarrow>
     distinct (running_ids s) \<and> (\<forall>i\<in>set (pending_ids s). i \<notin> set (running_ids s))"

section \<open>Seeding the catalog: \<open>parse_robot_tests.store_in_database\<close>\<close>

record parsed_test =
  pt_test_name :: string
  pt_file_path :: string
  pt_suite_name :: string

text \<open>
  The loop of lines 91--95: one \<open>INSERT\<close> per parsed test. The key is
  \<open>AUTOINCREMENT\<close>, so each row gets the successor of the largest id handed out so
  far; \<open>status\<close> is not given and takes the column default \<open>pending\<close>.
\<close>

fun insert_tests :: "parsed_test list \<Rightarrow> timestamp \<Rightarrow> int \<Rightarrow> test_case list" where
  "insert_tests [] current_time seq = []"
| "insert_tests (test # tests) current_time seq =
     \<lparr>tc_id = seq + 1, test_name = pt_test_name test, file_path = pt_file_path test,
      suite_name = pt_suite_name test, parsed_date = current_time, tc_status = ''pending''\<rparr>
     # insert_tests tests current_time (seq + 1)"

text \<open>
  \<open>DELETE FROM test_cases\<close>, the inserts, the commit. The value returned is
  \<open>cursor.rowcount\<close> of the last statement run: 1 after an \<open>INSERT\<close>, the number of
  deleted rows when there was nothing to insert.
\<close>

definition store_in_database :: "store \<Rightarrow> parsed_test list \<Rightarrow> timestamp \<Rightarrow> nat \<times> store" where
  "store_in_database s tests current_time =
     ((if tests = [] then length (test_cases s) else 1),
      s\<lparr>test_cases := insert_tests tests current_time (autoinc_seq s),
        autoinc_seq := autoinc_seq s + int (length tests)\<rparr>)"

section \<open>The completion monitor: \<open>merger.py\<close>\<close>

record test_status =
  st_total :: nat
  st_finished :: nat
  st_passed :: nat
  st_failed :: nat
  all_completed :: bool

text \<open>
  \<open>get_test_status\<close> counts the rows of \<open>test_cases\<close> and the rows of
  \<open>test_executions\<close> by status; any exception (no database, no table) gives \<open>None\<close>.
\<close>

definition count_executions :: "string list \<Rightarrow> store \<Rightarrow> nat" where
  "count_executions sts s = length (filter (\<lambda>e. ex_status e \<in> set sts) (test_executions s))"

definition get_test_status :: "store option \<Rightarrow> test_status option" where
  "get_test_status db =
     (case db of
        None \<Rightarrow> None
      | Some s \<Rightarrow>
          Some \<lparr>st_total = length (test_cases s),
                st_finished = count_executions [''completed'', ''failed''] s,
                st_passed = count_executions [''completed''] s,
                st_failed = count_executions [''failed''] s,
                all_completed =
                  (length (test_cases s) = count_executions [''completed'', ''failed''] s)\<rparr>)"

text \<open>
  \<open>k8s_test_distributor.check_test_completion\<close>: no row of \<open>test_cases\<close> is pending
  or running.
\<close>

definition check_test_completion :: "store \<Rightarrow> bool" where
  "check_test_completion s \<longleftrightarrow>
     length (filter (\<lambda>t. tc_status t = ''pending'' \<or> tc_status t = ''running'') (test_cases s)) = 0"

text \<open>
  \<open>monitor_and_merge\<close>: each turn of the loop reads the database afresh. The list holds
  what the database is at each read; \<open>merge_ok\<close> is what \<open>merge_test_results\<close>
  returns. \<open>None\<close>: the loop is still polling after the last read of the list.
\<close>

datatype monitor_exit = MergerCompleted | MergerFailed

fun monitor_and_merge :: "store option list \<Rightarrow> bool \<Rightarrow> monitor_exit option" where
  "monitor_and_merge [] merge_ok = None"
| "monitor_and_merge (db # dbs) merge_ok =
     (case get_test_status db of
        None \<Rightarrow> monitor_and_merge dbs merge_ok
      | Some status \<Rightarrow>
          if all_completed status
          then (if merge_ok then Some MergerCompleted else Some MergerFailed)
          else monitor_and_merge dbs merge_ok)"

section \<open>The worker: \<open>worker.py\<close>\<close>

text \<open>
  What one \<open>requests.get\<close> of \<open>get_next_test\<close> can come back with: status 200
  with the JSON payload, 404, 500 with \<open>Database error\<close> in the text, any other
  status, or a \<open>requests.RequestException\<close>.
\<close>

datatype 't api_response =
    Status200 't
  | Status404
  | Status500DatabaseError
  | StatusOther nat
  | RequestException

text \<open>
  \<open>get_next_test\<close> returns the payload or \<open>None\<close>. The module never imports
  \<open>time\<close>; the function imports it inside two of its branches (lines 48 and 64),
  which makes \<open>time\<close> a local name of the function, unbound until one of those
  imports has run. The branch of lines 52--59 calls \<open>time.sleep\<close> without importing:
  when no import has run before, that call raises \<open>UnboundLocalError\<close>, which the
  \<open>except requests.RequestException\<close> clause does not catch.
\<close>

datatype 't fetch = Returned "'t option" | UnboundLocalError

definition max_retries :: nat where
  "max_retries = 3"

text \<open>
  The \<open>for attempt in range(max_retries)\<close> loop. \<open>k\<close> counts the iterations left,
  \<open>attempt\<close> is the loop variable, \<open>retry_delay\<close> the current delay in seconds,
  \<open>time_bound\<close> whether the local name \<open>time\<close> is bound, \<open>slept\<close> the
  arguments of the calls of \<open>time.sleep\<close> so far. \<open>resp attempt\<close> is what the
  request of that iteration comes back with.
\<close>

fun get_next_test_loop ::
  "nat \<Rightarrow> (nat \<Rightarrow> 't api_response) \<Rightarrow> nat \<Rightarrow> nat \<Rightarrow> bool \<Rightarrow> nat list \<Rightarrow> 't fetch \<times> nat list" where
  "get_next_test_loop 0 resp attempt retry_delay time_bound slept = (Returned None, slept)"
| "get_next_test_loop (Suc k) resp attempt retry_delay time_bound slept =
     (case resp attempt of
        Status200 test_data \<Rightarrow> (Returned (Some test_data), slept)
      | Status404 \<Rightarrow> (Returned None, slept)
      | Status500DatabaseError \<Rightarrow>
          get_next_test_loop k resp (attempt + 1) (retry_delay * 2) True (slept @ [retry_delay])
      | StatusOther code \<Rightarrow>
          if attempt < max_retries - 1
          then (if time_bound
                then get_next_test_loop k resp (attempt + 1) (retry_delay * 2) time_bound
                       (slept @ [retry_delay])
                else (UnboundLocalError, slept))
          else (Returned None, slept)
      | RequestException \<Rightarrow>
          if attempt < max_retries - 1
          then get_next_test_loop k resp (attempt + 1) (retry_delay * 2) True
                 (slept @ [retry_delay])
          else (Returned None, slept))"

definition get_next_test :: "(nat \<Rightarrow> 't api_response) \<Rightarrow> 't fetch \<times> nat list" where
  "get_next_test resp = get_next_test_loop max_retries resp 0 1 False []"

text \<open>
  The \<open>while True\<close> loop of \<open>main\<close> (lines 196--220) inside its
  \<open>try ... except Exception\<close>. Each turn calls \<open>get_next_test\<close> once; the list
  gives, turn by turn, what the coordinator answers. The payload of a 200 answer is the
  JSON object of the response, a dictionary, here the list of its key-value pairs.
  Line 204, \<open>if not test\<close>, ends the loop on \<open>None\<close> and on an empty dictionary
  alike. Lines 208--209 and \<open>run_test\<close> read the keys \<open>test_name\<close>,
  \<open>test_id\<close> and \<open>execution_id\<close>: a missing key raises \<open>KeyError\<close>, which the
  \<open>except Exception\<close> of \<open>main\<close> catches. \<open>run_test\<close> and
  \<open>update_test_status\<close> are taken to return; what they return does not decide
  whether the loop goes on. \<open>None\<close>: the loop is still running after the last turn of
  the list.
\<close>

datatype main_exit = TestRunnerCompleted nat | ExceptionInMain

fun main_loop ::
  "(nat \<Rightarrow> (string \<times> 'v) list api_response) list \<Rightarrow> nat \<Rightarrow> main_exit option" where
  "main_loop [] tests_run = None"
| "main_loop (resp # resps) tests_run =
     (case fst (get_next_test resp) of
        UnboundLocalError \<Rightarrow> Some ExceptionInMain
      | Returned None \<Rightarrow> Some (TestRunnerCompleted tests_run)
      | Returned (Some test) \<Rightarrow>
          if test = [] then Some (TestRunnerCompleted tests_run)
          else if map_of test ''test_name'' = None \<or> map_of test ''test_id'' = None \<or>
                  map_of test ''execution_id'' = None
          then Some ExceptionInMain
          else main_loop resps (tests_run + 1))"

text \<open>
  The script ends with \<open>main()\<close> and calls \<open>sys.exit\<close> nowhere: when the loop
  breaks, and when the exception is caught and printed, \<open>main\<close> returns and the process
  ends with exit status 0.
\<close>

fun exit_status :: "main_exit \<Rightarrow> nat" where
  "exit_status (TestRunnerCompleted tests_run) = 0"
| "exit_status ExceptionInMain = 0"

section \<open>Example stores\<close>

definition example_case :: "int \<Rightarrow> string \<Rightarrow> string \<Rightarrow> test_case" where
  "example_case i name st =
     \<lparr>tc_id = i, test_name = name, file_path = ''tests/login/login.robot'',
      suite_name = ''login'', parsed_date = 0, tc_status = st\<rparr>"

definition example_execution ::
  "string \<Rightarrow> int \<Rightarrow> string \<Rightarrow> timestamp option \<Rightarrow> test_execution" where
  "example_execution eid tid st finished =
     \<lparr>execution_id = eid, test_id = tid, node_id = ''pod-a'', ex_status = st,
      start_time = 0, end_time = finished, result = None\<rparr>"

text \<open>One test, freshly seeded.\<close>

definition store_one_pending :: store where
  "store_one_pending =
     \<lparr>test_cases = [example_case 1 ''Valid Login'' ''pending''],
      test_executions = [], autoinc_seq = 1\<rparr>"

text \<open>Two tests; the first is claimed by execution \<open>e1\<close>, started at time 0.\<close>

definition store_one_running :: store where
  "store_one_running =
     \<lparr>test_cases = [example_case 1 ''Valid Login'' ''running'',
                     example_case 2 ''Invalid Login'' ''pending''],
      test_executions = [example_execution ''e1'' 1 ''running'' None], autoinc_seq = 2\<rparr>"

text \<open>One test, claimed by \<open>e1\<close> at time 0 and never reported.\<close>

definition store_stale :: store where
  "store_stale =
     \<lparr>test_cases = [example_case 1 ''Valid Login'' ''running''],
      test_executions = [example_execution ''e1'' 1 ''running'' None], autoinc_seq = 1\<rparr>"

text \<open>One test, run to the end by \<open>e1\<close>.\<close>

definition store_one_completed :: store where
  "store_one_completed =
     \<lparr>test_cases = [example_case 1 ''Valid Login'' ''completed''],
      test_executions = [example_execution ''e1'' 1 ''completed'' (Some 7)], autoinc_seq = 1\<rparr>"

text \<open>Three tests in storage order 3, 1, 2; test 1 is completed, the others pending.\<close>

definition store_three :: store where
  "store_three =
     \<lparr>test_cases = [example_case 3 ''Logout'' ''pending'',
                     example_case 1 ''Valid Login'' ''completed'',
                     example_case 2 ''Invalid Login'' ''pending''],
      test_executions = [example_execution ''e1'' 1 ''completed'' (Some 7)], autoinc_seq = 3\<rparr>"

text \<open>
  Two tests after a full run followed by a reset: both are pending again, and the
  execution records of the run are still there.
\<close>

definition store_after_reset :: store where
  "store_after_reset =
     \<lparr>test_cases = [example_case 1 ''Valid Login'' ''pending'',
                     example_case 2 ''Invalid Login'' ''pending''],
      test_executions = [example_execution ''e1'' 1 ''completed'' (Some 7),
                          example_execution ''e2'' 2 ''failed'' (Some 8)],
      autoinc_seq = 2\<rparr>"

text \<open>The two tests as the parser hands them to \<open>store_in_database\<close>.\<close>

definition example_tests :: "parsed_test list" where
  "example_tests =
     [\<lparr>pt_test_name = ''Valid Login'', pt_file_path = ''tests/login/login.robot'',
       pt_suite_name = ''login''\<rparr>,
      \<lparr>pt_test_name = ''Invalid Login'', pt_file_path = ''tests/login/login.robot'',
       pt_suite_name = ''login''\<rparr>]"

section \<open>Properties of \<open>update_test\<close>\<close>

lemma select_test_id_None:
  "select_test_id eid exs = None \<longleftrightarrow> eid \<notin> set (map execution_id exs)"
  by (induction exs) (auto simp: select_test_id_def)

text \<open>
  Claim C10. A \<open>POST /api/update_test\<close> whose \<open>execution_id\<close> matches no row of
  \<open>test_executions\<close> is answered with 404 and leaves the whole store as it was:
  neither table is modified on this branch.
\<close>

theorem update_test_unknown_execution:
  assumes "req_execution_id data = Some eid"
    and "req_status data = Some st"
    and "eid \<notin> set (map execution_id (test_executions s))"
  shows "update_test (Some s) data now = ((404, Error ''Execution ID not found''), Some s)"
proof -
  from assms(3) have "select_test_id eid (test_executions s) = None"
    by (simp add: select_test_id_None)
  with assms(1,2) show ?thesis
    by (simp add: update_test_def)
qed

theorem update_test_unknown_execution_witness:
  "update_test (Some store_one_running)
     \<lparr>req_execution_id = Some ''e2'', req_status = Some ''completed'', req_result = None\<rparr> 9
   = ((404, Error ''Execution ID not found''), Some store_one_running)"
proof -
  have fresh: "''e2'' \<notin> set (map execution_id (test_executions store_one_running))"
    by (simp add: store_one_running_def example_execution_def)
  show ?thesis
    by (rule update_test_unknown_execution [OF _ _ fresh]) simp_all
qed

lemma update_case_status_sets:
  assumes "t \<in> set (update_case_status st i tcs)" and "tc_id t = i"
  shows "tc_status t = st"
proof -
  from assms(1)
  have "t \<in> (\<lambda>t. if tc_id t = i then t\<lparr>tc_status := st\<rparr> else t) ` set tcs"
    by (simp only: update_case_status_def set_map)
  then obtain u where t: "t = (if tc_id u = i then u\<lparr>tc_status := st\<rparr> else u)"
    and "u \<in> set tcs"
    by (rule imageE)
  show ?thesis
  proof (cases "tc_id u = i")
    case True
    with t show ?thesis by simp
  next
    case False
    with t assms(2) show ?thesis by simp
  qed
qed

lemma update_case_status_ids:
  "map tc_id (update_case_status st i tcs) = map tc_id tcs"
  by (simp add: update_case_status_def)

lemma update_execution_sets:
  assumes "e \<in> set (update_execution eid st now res exs)" and "execution_id e = eid"
  shows "ex_status e = st"
proof -
  from assms(1)
  have "e \<in> (\<lambda>e. if execution_id e = eid
                   then e\<lparr>ex_status := st, end_time := Some now, result := res\<rparr>
                   else e) ` set exs"
    by (simp only: update_execution_def set_map)
  then obtain u where e: "e = (if execution_id u = eid
                   then u\<lparr>ex_status := st, end_time := Some now, result := res\<rparr>
                   else u)"
    and "u \<in> set exs"
    by (rule imageE)
  show ?thesis
  proof (cases "execution_id u = eid")
    case True
    with e show ?thesis by simp
  next
    case False
    with e assms(2) show ?thesis by simp
  qed
qed

lemma update_execution_ids:
  "map execution_id (update_execution eid st now res exs) = map execution_id exs"
  by (simp add: update_execution_def)

text \<open>
  Claim C9. For every \<open>POST /api/update_test\<close> whose \<open>execution_id\<close> has a row in
  \<open>test_executions\<close>, the server answers 200 and writes the status string of the
  request, as it is, into that execution record and into the \<open>test_cases\<close> row the
  record points to. The string is not compared with any set of allowed statuses and the
  current status of the row is not read: \<open>st\<close> and the store are arbitrary. The witness
  moves a completed test back to \<open>pending\<close> with one call.
\<close>

theorem update_test_writes_status_verbatim:
  assumes rid: "req_execution_id data = Some eid"
    and rst: "req_status data = Some st"
    and row: "find (\<lambda>e. execution_id e = eid) (test_executions s) = Some ex"
  shows "\<exists>s'. update_test (Some s) data now = ((200, Message ''Test status updated''), Some s') \<and>
           (\<forall>e\<in>set (test_executions s'). execution_id e = eid \<longrightarrow> ex_status e = st) \<and>
           (\<forall>t\<in>set (test_cases s'). tc_id t = test_id ex \<longrightarrow> tc_status t = st) \<and>
           map execution_id (test_executions s') = map execution_id (test_executions s) \<and>
           map tc_id (test_cases s') = map tc_id (test_cases s)"
proof -
  let ?s' = "s\<lparr>test_executions :=
                 update_execution eid st now (req_result data) (test_executions s),
               test_cases := update_case_status st (test_id ex) (test_cases s)\<rparr>"
  from row have sel: "select_test_id eid (test_executions s) = Some (test_id ex)"
    by (simp add: select_test_id_def)
  show ?thesis
  proof (rule exI [where x = ?s'], intro conjI ballI impI)
    show "update_test (Some s) data now = ((200, Message ''Test status updated''), Some ?s')"
      by (simp add: update_test_def rid rst sel)
  next
    fix e
    assume "e \<in> set (test_executions ?s')" and "execution_id e = eid"
    then show "ex_status e = st"
      by (simp add: update_execution_sets)
  next
    fix t
    assume "t \<in> set (test_cases ?s')" and "tc_id t = test_id ex"
    then show "tc_status t = st"
      by (simp add: update_case_status_sets)
  next
    show "map execution_id (test_executions ?s') = map execution_id (test_executions s)"
      by (simp add: update_execution_ids)
  next
    show "map tc_id (test_cases ?s') = map tc_id (test_cases s)"
      by (simp add: update_case_status_ids)
  qed
qed

theorem update_test_writes_status_verbatim_witness:
  "find (\<lambda>e. execution_id e = ''e1'') (test_executions store_one_completed)
     = Some (example_execution ''e1'' 1 ''completed'' (Some 7)) \<and>
   (\<exists>s'. update_test (Some store_one_completed)
            \<lparr>req_execution_id = Some ''e1'', req_status = Some ''pending'', req_result = None\<rparr> 9
          = ((200, Message ''Test status updated''), Some s') \<and>
        (\<forall>e\<in>set (test_executions s'). execution_id e = ''e1'' \<longrightarrow> ex_status e = ''pending'') \<and>
        (\<forall>t\<in>set (test_cases s').
            tc_id t = test_id (example_execution ''e1'' 1 ''completed'' (Some 7)) \<longrightarrow>
            tc_status t = ''pending'') \<and>
        map execution_id (test_executions s') =
          map execution_id (test_executions store_one_completed) \<and>
        map tc_id (test_cases s') = map tc_id (test_cases store_one_completed))"
proof (rule conjI)
  show row: "find (\<lambda>e. execution_id e = ''e1'') (test_executions store_one_completed)
             = Some (example_execution ''e1'' 1 ''completed'' (Some 7))"
    by (simp add: store_one_completed_def example_execution_def)
  show "\<exists>s'. update_test (Some store_one_completed)
            \<lparr>req_execution_id = Some ''e1'', req_status = Some ''pending'', req_result = None\<rparr> 9
          = ((200, Message ''Test status updated''), Some s') \<and>
        (\<forall>e\<in>set (test_executions s'). execution_id e = ''e1'' \<longrightarrow> ex_status e = ''pending'') \<and>
        (\<forall>t\<in>set (test_cases s').
            tc_id t = test_id (example_execution ''e1'' 1 ''completed'' (Some 7)) \<longrightarrow>
            tc_status t = ''pending'') \<and>
        map execution_id (test_executions s') =
          map execution_id (test_executions store_one_completed) \<and>
        map tc_id (test_cases s') = map tc_id (test_cases store_one_completed)"
    by (rule update_test_writes_status_verbatim [OF _ _ row]) simp_all
qed

section \<open>Properties of the reset\<close>

text \<open>
  Claim C8. The reset sets the status of every row of \<open>test_cases\<close> to \<open>pending\<close>
  and leaves \<open>test_executions\<close> as it is: no execution record is deleted or modified.
  This holds for the handler \<open>reset_tests\<close> and for \<open>reset_test_statuses\<close>; the
  rows of \<open>test_cases\<close> keep their ids.
\<close>

theorem reset_keeps_execution_history:
  "reset_tests (Some s) = ((200, ResetCount (length (test_cases s))), Some (reset_statuses s)) \<and>
   reset_test_statuses s = reset_statuses s \<and>
   test_executions (reset_statuses s) = test_executions s \<and>
   (\<forall>t\<in>set (test_cases (reset_statuses s)). tc_status t = ''pending'') \<and>
   map tc_id (test_cases (reset_statuses s)) = map tc_id (test_cases s)"
  by (simp add: reset_tests_def reset_test_statuses_def reset_statuses_def)

theorem reset_keeps_execution_history_witness:
  "map ex_status (test_executions store_one_completed) = [''completed''] \<and>
   map tc_status (test_cases store_one_completed) = [''completed''] \<and>
   reset_tests (Some store_one_completed) =
     ((200, ResetCount 1), Some (reset_statuses store_one_completed)) \<and>
   test_executions (reset_statuses store_one_completed) =
     [example_execution ''e1'' 1 ''completed'' (Some 7)] \<and>
   map tc_status (test_cases (reset_statuses store_one_completed)) = [''pending'']"
proof -
  have ev: "test_executions store_one_completed =
              [example_execution ''e1'' 1 ''completed'' (Some 7)] \<and>
            test_cases store_one_completed = [example_case 1 ''Valid Login'' ''completed'']"
    by (simp add: store_one_completed_def)
  have st: "map tc_status (test_cases (reset_statuses store_one_completed)) = [''pending'']"
    by (simp add: reset_statuses_def ev)
  from reset_keeps_execution_history [of store_one_completed] ev st show ?thesis
    by (simp add: example_case_def example_execution_def)
qed

section \<open>Properties of \<open>next_test\<close>\<close>

lemma sort_key_Nil_iff: "sort_key f xs = [] \<longleftrightarrow> xs = []"
  by (cases xs) (simp_all add: insort_not_Nil)

lemma select_pending_None:
  "select_pending tcs = None \<longleftrightarrow> (\<forall>t\<in>set tcs. tc_status t \<noteq> ''pending'')"
proof -
  have "select_pending tcs = None \<longleftrightarrow>
        sort_key tc_id (filter (\<lambda>t. tc_status t = ''pending'') tcs) = []"
    by (cases "sort_key tc_id (filter (\<lambda>t. tc_status t = ''pending'') tcs)")
       (simp_all add: select_pending_def)
  also have "\<dots> \<longleftrightarrow> filter (\<lambda>t. tc_status t = ''pending'') tcs = []"
    by (rule sort_key_Nil_iff)
  also have "\<dots> \<longleftrightarrow> (\<forall>t\<in>set tcs. tc_status t \<noteq> ''pending'')"
    by (simp add: filter_empty_conv)
  finally show ?thesis .
qed

lemma select_pending_Some:
  assumes "select_pending tcs = Some t"
  shows "t \<in> set tcs \<and> tc_status t = ''pending'' \<and>
         (\<forall>u\<in>set tcs. tc_status u = ''pending'' \<longrightarrow> tc_id t \<le> tc_id u)"
proof -
  let ?ps = "filter (\<lambda>t. tc_status t = ''pending'') tcs"
  from assms obtain ts where srt: "sort_key tc_id ?ps = t # ts"
    by (auto simp: select_pending_def split: list.splits)
  have "set (t # ts) = set ?ps"
    using srt set_sort [of tc_id ?ps] by simp
  moreover have "sorted (map tc_id (t # ts))"
    using srt sorted_sort_key [of tc_id ?ps] by simp
  ultimately show ?thesis
    by auto
qed

text \<open>
  Claim C6. \<open>next_test\<close> hands out the pending test with the lowest id, and answers 404
  with \<open>No tests available\<close>, the store untouched, when no test is pending. The
  execution id is the fresh value \<open>uuid4\<close> gives.
\<close>

theorem next_test_lowest_pending:
  assumes "eid \<notin> set (map execution_id (test_executions s))"
  shows "if \<exists>t\<in>set (test_cases s). tc_status t = ''pending''
         then \<exists>t\<in>set (test_cases s). tc_status t = ''pending'' \<and>
                (\<forall>u\<in>set (test_cases s). tc_status u = ''pending'' \<longrightarrow> tc_id t \<le> tc_id u) \<and>
                fst (next_test (Some s) node_arg eid now) =
                  (200, Assigned eid (tc_id t) (test_name t) (suite_name t) (file_path t))
         else next_test (Some s) node_arg eid now =
                ((404, Message ''No tests available''), Some s)"
proof (cases "select_pending (test_cases s)")
  case None
  have nt: "next_test (Some s) node_arg eid now = ((404, Message ''No tests available''), Some s)"
    unfolding next_test_def Let_def by (simp add: None)
  from None have "\<not> (\<exists>t\<in>set (test_cases s). tc_status t = ''pending'')"
    unfolding select_pending_None by blast
  with nt show ?thesis
    by (simp only: if_False)
next
  case (Some t)
  note sel = select_pending_Some [OF Some]
  have ex: "\<exists>t\<in>set (test_cases s). tc_status t = ''pending''"
    using sel by blast
  have nt: "fst (next_test (Some s) node_arg eid now) =
      (200, Assigned eid (tc_id t) (test_name t) (suite_name t) (file_path t))"
    unfolding next_test_def Let_def using assms by (simp add: Some)
  have "\<exists>t\<in>set (test_cases s). tc_status t = ''pending'' \<and>
                (\<forall>u\<in>set (test_cases s). tc_status u = ''pending'' \<longrightarrow> tc_id t \<le> tc_id u) \<and>
                fst (next_test (Some s) node_arg eid now) =
                  (200, Assigned eid (tc_id t) (test_name t) (suite_name t) (file_path t))"
    using sel nt by blast
  with ex show ?thesis
    by (simp only: if_True)
qed

theorem next_test_lowest_pending_witness:
  "''e2'' \<notin> set (map execution_id (test_executions store_three)) \<and>
   (if \<exists>t\<in>set (test_cases store_three). tc_status t = ''pending''
    then \<exists>t\<in>set (test_cases store_three). tc_status t = ''pending'' \<and>
           (\<forall>u\<in>set (test_cases store_three). tc_status u = ''pending'' \<longrightarrow> tc_id t \<le> tc_id u) \<and>
           fst (next_test (Some store_three) (Some ''pod-b'') ''e2'' 12) =
             (200, Assigned ''e2'' (tc_id t) (test_name t) (suite_name t) (file_path t))
    else next_test (Some store_three) (Some ''pod-b'') ''e2'' 12 =
           ((404, Message ''No tests available''), Some store_three)) \<and>
   fst (next_test (Some store_three) (Some ''pod-b'') ''e2'' 12) =
     (200, Assigned ''e2'' 2 ''Invalid Login'' ''login'' ''tests/login/login.robot'')"
proof (intro conjI)
  show fresh: "''e2'' \<notin> set (map execution_id (test_executions store_three))"
    by (simp add: store_three_def example_execution_def)
  show "if \<exists>t\<in>set (test_cases store_three). tc_status t = ''pending''
    then \<exists>t\<in>set (test_cases store_three). tc_status t = ''pending'' \<and>
           (\<forall>u\<in>set (test_cases store_three). tc_status u = ''pending'' \<longrightarrow> tc_id t \<le> tc_id u) \<and>
           fst (next_test (Some store_three) (Some ''pod-b'') ''e2'' 12) =
             (200, Assigned ''e2'' (tc_id t) (test_name t) (suite_name t) (file_path t))
    else next_test (Some store_three) (Some ''pod-b'') ''e2'' 12 =
           ((404, Message ''No tests available''), Some store_three)"
    by (rule next_test_lowest_pending [OF fresh])
  show "fst (next_test (Some store_three) (Some ''pod-b'') ''e2'' 12) =
     (200, Assigned ''e2'' 2 ''Invalid Login'' ''login'' ''tests/login/login.robot'')"
    by (simp add: next_test_def select_pending_def store_three_def example_case_def
        example_execution_def)
qed

section \<open>The claim invariant\<close>

lemma running_ids_claim_commit:
  "running_ids (claim_commit s tid node eid now) = running_ids s @ [tid]"
  by (simp add: running_ids_def claim_commit_def new_execution_def)

lemma pending_update_running:
  "set (map tc_id (filter (\<lambda>t. tc_status t = ''pending'') (update_case_status ''running'' tid tcs)))
   = set (map tc_id (filter (\<lambda>t. tc_status t = ''pending'') tcs)) - {tid}"
  by (induction tcs) (simp_all add: update_case_status_def insert_Diff_if)

lemma pending_ids_claim_commit:
  "set (pending_ids (claim_commit s tid node eid now)) = set (pending_ids s) - {tid}"
  using pending_update_running [of tid "test_cases s"]
  by (simp add: pending_ids_def claim_commit_def)

lemma select_pending_pending_ids:
  "select_pending (test_cases s) = Some t \<Longrightarrow> tc_id t \<in> set (pending_ids s)"
  using select_pending_Some [of "test_cases s" t] by (simp add: pending_ids_def)

lemma claim_inv_claim_commit:
  assumes inv: "claim_inv s" and pend: "tid \<in> set (pending_ids s)"
  shows "claim_inv (claim_commit s tid node eid now)"
proof -
  from inv pend have "tid \<notin> set (running_ids s)"
    by (simp add: claim_inv_def)
  moreover from inv have "distinct (running_ids s)"
    by (simp add: claim_inv_def)
  moreover from inv have "\<forall>i\<in>set (pending_ids s). i \<notin> set (running_ids s)"
    by (simp add: claim_inv_def)
  ultimately show ?thesis
    unfolding claim_inv_def running_ids_claim_commit pending_ids_claim_commit
    by simp
qed

lemma next_test_Some_cases:
  obtains (unchanged) r where "next_test (Some s) node_arg eid now = (r, Some s)"
      and "assigned_id r = None"
  | (claimed) t :: test_case and node where "tc_id t \<in> set (pending_ids s)"
      and "next_test (Some s) node_arg eid now =
             ((200, Assigned eid (tc_id t) (test_name t) (suite_name t) (file_path t)),
              Some (claim_commit s (tc_id t) node eid now))"
proof (cases "select_pending (test_cases s)")
  case None
  then have "next_test (Some s) node_arg eid now = ((404, Message ''No tests available''), Some s)"
    by (simp add: next_test_def)
  then show ?thesis
    by (rule unchanged) simp
next
  case (Some t)
  show ?thesis
  proof (cases "eid \<in> set (map execution_id (test_executions s))")
    case True
    with Some have "next_test (Some s) node_arg eid now = ((500, Error ''IntegrityError''), Some s)"
      by (simp add: next_test_def)
    then show ?thesis
      by (rule unchanged) simp
  next
    case False
    with Some have "next_test (Some s) node_arg eid now =
             ((200, Assigned eid (tc_id t) (test_name t) (suite_name t) (file_path t)),
              Some (claim_commit s (tc_id t)
                      (case node_arg of None \<Rightarrow> ''unknown-node'' | Some n \<Rightarrow> n) eid now))"
      by (simp add: next_test_def)
    with select_pending_pending_ids [OF Some] show ?thesis
      by (rule claimed)
  qed
qed

lemma next_test_seq_inv:
  "claim_inv s \<Longrightarrow>
   claim_inv (snd (next_test_seq s calls)) \<and>
   distinct (assigned_ids (fst (next_test_seq s calls))) \<and>
   set (assigned_ids (fst (next_test_seq s calls))) \<subseteq> set (pending_ids s)"
proof (induction calls arbitrary: s)
  case Nil
  then show ?case
    by (simp add: assigned_ids_def)
next
  case (Cons c calls)
  obtain node_arg eid now where c: "c = (node_arg, eid, now)"
    by (cases c)
  show ?case
  proof (cases rule: next_test_Some_cases [of s node_arg eid now])
    case (unchanged r)
    then have "fst (next_test_seq s (c # calls)) = r # fst (next_test_seq s calls)"
      and "snd (next_test_seq s (c # calls)) = snd (next_test_seq s calls)"
      by (simp_all add: c split: prod.split)
    moreover from unchanged(2) have "assigned_ids (r # fst (next_test_seq s calls)) =
        assigned_ids (fst (next_test_seq s calls))"
      by (simp add: assigned_ids_def)
    ultimately show ?thesis
      using Cons.IH [OF Cons.prems] by simp
  next
    case (claimed t node)
    let ?s1 = "claim_commit s (tc_id t) node eid now"
    let ?r = "(200::nat, Assigned eid (tc_id t) (test_name t) (suite_name t) (file_path t))"
    from claimed(2) have f: "fst (next_test_seq s (c # calls)) = ?r # fst (next_test_seq ?s1 calls)"
      and sn: "snd (next_test_seq s (c # calls)) = snd (next_test_seq ?s1 calls)"
      by (simp_all add: c split: prod.split)
    have ids: "assigned_ids (?r # fst (next_test_seq ?s1 calls)) =
        tc_id t # assigned_ids (fst (next_test_seq ?s1 calls))"
      by (simp add: assigned_ids_def)
    have inv1: "claim_inv ?s1"
      using Cons.prems claimed(1) by (rule claim_inv_claim_commit)
    note ih = Cons.IH [OF inv1]
    from ih have sub: "set (assigned_ids (fst (next_test_seq ?s1 calls))) \<subseteq> set (pending_ids s) - {tc_id t}"
      by (simp add: pending_ids_claim_commit)
    then have "tc_id t \<notin> set (assigned_ids (fst (next_test_seq ?s1 calls)))"
      by blast
    with ih sub claimed(1) show ?thesis
      unfolding f sn ids by auto
  qed
qed

text \<open>
  The two steps of a handler, taken with no other handler in between, are \<open>next_test\<close>.
\<close>

lemma handler_steps_serial:
  "(case handler_step s (Start node_arg eid now) of (s1, h1) \<Rightarrow> handler_step s1 h1) =
   (case next_test (Some s) node_arg eid now of
      (r, db') \<Rightarrow> ((case db' of None \<Rightarrow> s | Some s' \<Rightarrow> s'), Finished r))"
  by (cases "select_pending (test_cases s)") (simp_all add: next_test_def)

text \<open>
  Claim C1, as amended. When the calls of \<open>next_test\<close> are served one after another,
  from a store in which no test has two running executions and no pending test has one,
  no test id is handed out twice and no test ever has two running executions. The
  handler itself does nothing to keep its \<open>SELECT\<close> and its write together, so the
  statement is about serial calls only.
\<close>

theorem next_test_seq_mutual_exclusion:
  assumes "claim_inv s"
  shows "claim_inv (snd (next_test_seq s calls)) \<and>
         distinct (running_ids (snd (next_test_seq s calls))) \<and>
         distinct (assigned_ids (fst (next_test_seq s calls)))"
proof -
  from next_test_seq_inv [OF assms, of calls]
  have "claim_inv (snd (next_test_seq s calls))"
    and "distinct (assigned_ids (fst (next_test_seq s calls)))"
    by simp_all
  then show ?thesis
    by (simp add: claim_inv_def)
qed

theorem next_test_seq_mutual_exclusion_witness:
  "claim_inv store_three \<and>
   (claim_inv (snd (next_test_seq store_three
        [(Some ''pod-a'', ''e2'', 10), (Some ''pod-b'', ''e3'', 11), (None, ''e4'', 12)])) \<and>
    distinct (running_ids (snd (next_test_seq store_three
        [(Some ''pod-a'', ''e2'', 10), (Some ''pod-b'', ''e3'', 11), (None, ''e4'', 12)]))) \<and>
    distinct (assigned_ids (fst (next_test_seq store_three
        [(Some ''pod-a'', ''e2'', 10), (Some ''pod-b'', ''e3'', 11), (None, ''e4'', 12)]))))"
proof (rule conjI)
  show inv: "claim_inv store_three"
    by (simp add: claim_inv_def running_ids_def pending_ids_def store_three_def
        example_case_def example_execution_def)
  show "claim_inv (snd (next_test_seq store_three
        [(Some ''pod-a'', ''e2'', 10), (Some ''pod-b'', ''e3'', 11), (None, ''e4'', 12)])) \<and>
    distinct (running_ids (snd (next_test_seq store_three
        [(Some ''pod-a'', ''e2'', 10), (Some ''pod-b'', ''e3'', 11), (None, ''e4'', 12)]))) \<and>
    distinct (assigned_ids (fst (next_test_seq store_three
        [(Some ''pod-a'', ''e2'', 10), (Some ''pod-b'', ''e3'', 11), (None, ''e4'', 12)])))"
    by (rule next_test_seq_mutual_exclusion [OF inv])
qed

text \<open>
  Two handlers that overlap: both run their \<open>SELECT\<close> before either writes. Both are
  answered 200 with test 1, and test 1 ends with two running executions.
\<close>

theorem next_test_overlap_counterexample:
  "run_schedule [0, 1, 0, 1]
     (store_one_pending, [Start (Some ''pod-a'') ''e1'' 5, Start (Some ''pod-b'') ''e2'' 6]) =
   (\<lparr>test_cases = [example_case 1 ''Valid Login'' ''running''],
     test_executions = [new_execution ''e1'' 1 ''pod-a'' 5, new_execution ''e2'' 1 ''pod-b'' 6],
     autoinc_seq = 1\<rparr>,
    [Finished (200, Assigned ''e1'' 1 ''Valid Login'' ''login'' ''tests/login/login.robot''),
     Finished (200, Assigned ''e2'' 1 ''Valid Login'' ''login'' ''tests/login/login.robot'')])"
  by (simp add: store_one_pending_def example_case_def select_pending_def claim_commit_def
      update_case_status_def new_execution_def)

section \<open>No lease, no reclaim\<close>

text \<open>
  Claim C3, as amended. The code has no lease and no reclaim. Whatever the clock says,
  \<open>next_test\<close> leaves every execution record that exists as it is (it can only append
  one) and leaves every test row with status \<open>running\<close> as it is: a claimed test stays
  claimed until \<open>update_test\<close> or a reset changes it.
\<close>

theorem next_test_never_reclaims:
  assumes nt: "next_test (Some s) node_arg eid now = (r, db')"
  shows "\<exists>s'. db' = Some s' \<and>
           take (length (test_executions s)) (test_executions s') = test_executions s \<and>
           (\<forall>t\<in>set (test_cases s). tc_status t = ''running'' \<longrightarrow> t \<in> set (test_cases s'))"
proof (cases rule: next_test_Some_cases [of s node_arg eid now])
  case (unchanged r')
  with nt have "db' = Some s"
    by simp
  then show ?thesis
    by simp
next
  case (claimed u node)
  let ?f = "\<lambda>t. if tc_id t = tc_id u then t\<lparr>tc_status := ''running''\<rparr> else t"
  let ?s' = "claim_commit s (tc_id u) node eid now"
  from claimed(2) nt have db': "db' = Some ?s'"
    by simp
  have ex: "take (length (test_executions s)) (test_executions ?s') = test_executions s"
    by (simp add: claim_commit_def)
  have tc: "\<forall>t\<in>set (test_cases s). tc_status t = ''running'' \<longrightarrow> t \<in> set (test_cases ?s')"
  proof (intro ballI impI)
    fix t
    assume mem: "t \<in> set (test_cases s)" and run: "tc_status t = ''running''"
    from run have feq: "?f t = t"
      by (cases "tc_id t = tc_id u") simp_all
    from mem have "t \<in> ?f ` set (test_cases s)"
      by (rule rev_image_eqI) (rule feq [symmetric])
    then show "t \<in> set (test_cases ?s')"
      by (simp add: claim_commit_def update_case_status_def)
  qed
  from db' ex tc show ?thesis
    by blast
qed

theorem next_test_never_reclaims_witness:
  "next_test (Some store_one_running) (Some ''pod-b'') ''e2'' 1000000 =
     ((200, Assigned ''e2'' 2 ''Invalid Login'' ''login'' ''tests/login/login.robot''),
      Some (claim_commit store_one_running 2 ''pod-b'' ''e2'' 1000000)) \<and>
   (\<exists>s'. Some (claim_commit store_one_running 2 ''pod-b'' ''e2'' 1000000) = Some s' \<and>
      take (length (test_executions store_one_running)) (test_executions s') =
        test_executions store_one_running \<and>
      (\<forall>t\<in>set (test_cases store_one_running).
          tc_status t = ''running'' \<longrightarrow> t \<in> set (test_cases s')))"
proof (rule conjI)
  show nt: "next_test (Some store_one_running) (Some ''pod-b'') ''e2'' 1000000 =
     ((200, Assigned ''e2'' 2 ''Invalid Login'' ''login'' ''tests/login/login.robot''),
      Some (claim_commit store_one_running 2 ''pod-b'' ''e2'' 1000000))"
    by (simp add: next_test_def select_pending_def store_one_running_def example_case_def
        example_execution_def)
  show "\<exists>s'. Some (claim_commit store_one_running 2 ''pod-b'' ''e2'' 1000000) = Some s' \<and>
      take (length (test_executions store_one_running)) (test_executions s') =
        test_executions store_one_running \<and>
      (\<forall>t\<in>set (test_cases store_one_running).
          tc_status t = ''running'' \<longrightarrow> t \<in> set (test_cases s'))"
    by (rule next_test_never_reclaims [OF nt])
qed

text \<open>
  A test claimed at time 0 and never reported: a call of \<open>next_test\<close> a million ticks
  later answers 404 and changes nothing; the execution is still running.
\<close>

theorem next_test_stale_counterexample:
  "map ex_status (test_executions store_stale) = [''running''] \<and>
   map start_time (test_executions store_stale) = [0] \<and>
   next_test (Some store_stale) (Some ''pod-b'') ''e2'' 1000000 =
     ((404, Message ''No tests available''), Some store_stale)"
  by (simp add: next_test_def select_pending_def store_stale_def example_case_def
        example_execution_def)

section \<open>Reporting twice\<close>

text \<open>
  A report for an execution that is already finalized: \<open>e1\<close> is completed, and a second
  report with status \<open>failed\<close> is answered 200 and overwrites the execution record and
  the test row.
\<close>

theorem update_test_repeat_counterexample:
  "update_test (Some store_one_completed)
     \<lparr>req_execution_id = Some ''e1'', req_status = Some ''failed'', req_result = Some ''again''\<rparr> 9
   = ((200, Message ''Test status updated''),
      Some \<lparr>test_cases = [example_case 1 ''Valid Login'' ''failed''],
            test_executions =
              [(example_execution ''e1'' 1 ''failed'' (Some 9))\<lparr>result := Some ''again''\<rparr>],
            autoinc_seq = 1\<rparr>)"
  by (simp add: update_test_def select_test_id_def update_execution_def update_case_status_def
      store_one_completed_def example_case_def example_execution_def)

lemma select_test_id_update_execution:
  "select_test_id eid (update_execution eid st now res exs) = select_test_id eid exs"
  by (induction exs) (simp_all add: select_test_id_def update_execution_def)

lemma update_execution_fields:
  assumes "e \<in> set (update_execution eid st now res exs)" and "execution_id e = eid"
  shows "ex_status e = st \<and> end_time e = Some now \<and> result e = res"
proof -
  from assms(1)
  have "e \<in> (\<lambda>e. if execution_id e = eid
                   then e\<lparr>ex_status := st, end_time := Some now, result := res\<rparr>
                   else e) ` set exs"
    by (simp only: update_execution_def set_map)
  then obtain u where e: "e = (if execution_id u = eid
                   then u\<lparr>ex_status := st, end_time := Some now, result := res\<rparr>
                   else u)"
    and "u \<in> set exs"
    by (rule imageE)
  show ?thesis
  proof (cases "execution_id u = eid")
    case True
    with e show ?thesis by simp
  next
    case False
    with e assms(2) show ?thesis by simp
  qed
qed

text \<open>
  Claim C2, as amended. \<open>update_test\<close> answers 404 exactly when the \<open>execution_id\<close>
  matches no row of \<open>test_executions\<close>; whether the execution is still running plays
  no part. When the row exists the call is answered 200, and so is a later call for the
  same \<open>execution_id\<close>, with any status. That repeated report is applied again: after
  it the execution record carries the status, end time and result of the second request,
  and the test row the record points to carries its status.
\<close>

theorem update_test_not_found_iff:
  assumes rid: "req_execution_id data = Some eid"
    and rst: "req_status data = Some st"
    and rid2: "req_execution_id data2 = Some eid"
    and rst2: "req_status data2 = Some st2"
  shows "(fst (fst (update_test (Some s) data now)) = 404 \<longleftrightarrow>
            eid \<notin> set (map execution_id (test_executions s))) \<and>
         (eid \<in> set (map execution_id (test_executions s)) \<longrightarrow>
            fst (update_test (Some s) data now) = (200, Message ''Test status updated'') \<and>
            fst (update_test (snd (update_test (Some s) data now)) data2 now2) =
              (200, Message ''Test status updated'') \<and>
            (\<exists>s2. snd (update_test (snd (update_test (Some s) data now)) data2 now2) = Some s2 \<and>
               (\<forall>e\<in>set (test_executions s2). execution_id e = eid \<longrightarrow>
                   ex_status e = st2 \<and> end_time e = Some now2 \<and> result e = req_result data2) \<and>
               (\<forall>ex. find (\<lambda>e. execution_id e = eid) (test_executions s) = Some ex \<longrightarrow>
                   (\<forall>t\<in>set (test_cases s2). tc_id t = test_id ex \<longrightarrow> tc_status t = st2)) \<and>
               map execution_id (test_executions s2) = map execution_id (test_executions s) \<and>
               map tc_id (test_cases s2) = map tc_id (test_cases s)))"
proof (cases "select_test_id eid (test_executions s)")
  case None
  then have nomem: "eid \<notin> set (map execution_id (test_executions s))"
    by (simp add: select_test_id_None)
  from None have "update_test (Some s) data now = ((404, Error ''Execution ID not found''), Some s)"
    by (simp add: update_test_def rid rst)
  with nomem show ?thesis
    by simp
next
  case (Some tid)
  then have mem: "eid \<in> set (map execution_id (test_executions s))"
    using select_test_id_None [of eid "test_executions s"] by simp
  let ?s1 = "s\<lparr>test_executions :=
                 update_execution eid st now (req_result data) (test_executions s),
               test_cases := update_case_status st tid (test_cases s)\<rparr>"
  let ?s2 = "?s1\<lparr>test_executions :=
                 update_execution eid st2 now2 (req_result data2) (test_executions ?s1),
               test_cases := update_case_status st2 tid (test_cases ?s1)\<rparr>"
  from Some have upd: "update_test (Some s) data now =
      ((200, Message ''Test status updated''), Some ?s1)"
    by (simp add: update_test_def rid rst)
  from Some have sel1: "select_test_id eid (test_executions ?s1) = Some tid"
    by (simp add: select_test_id_update_execution)
  then have upd2: "update_test (Some ?s1) data2 now2 =
      ((200, Message ''Test status updated''), Some ?s2)"
    by (simp add: update_test_def rid2 rst2)
  have ex2: "\<forall>e\<in>set (test_executions ?s2). execution_id e = eid \<longrightarrow>
                   ex_status e = st2 \<and> end_time e = Some now2 \<and> result e = req_result data2"
  proof (intro ballI impI)
    fix e
    assume "e \<in> set (test_executions ?s2)" and "execution_id e = eid"
    then show "ex_status e = st2 \<and> end_time e = Some now2 \<and> result e = req_result data2"
      by (simp add: update_execution_fields)
  qed
  have tc2: "\<forall>ex. find (\<lambda>e. execution_id e = eid) (test_executions s) = Some ex \<longrightarrow>
                   (\<forall>t\<in>set (test_cases ?s2). tc_id t = test_id ex \<longrightarrow> tc_status t = st2)"
  proof (intro allI impI ballI)
    fix ex t
    assume row: "find (\<lambda>e. execution_id e = eid) (test_executions s) = Some ex"
      and t: "t \<in> set (test_cases ?s2)" and tid: "tc_id t = test_id ex"
    from row Some have "test_id ex = tid"
      by (simp add: select_test_id_def)
    with t tid show "tc_status t = st2"
      by (simp add: update_case_status_sets)
  qed
  have ids: "map execution_id (test_executions ?s2) = map execution_id (test_executions s)"
    by (simp add: update_execution_ids)
  have tids: "map tc_id (test_cases ?s2) = map tc_id (test_cases s)"
    by (simp add: update_case_status_ids)
  have "\<exists>s2. Some ?s2 = Some s2 \<and>
               (\<forall>e\<in>set (test_executions s2). execution_id e = eid \<longrightarrow>
                   ex_status e = st2 \<and> end_time e = Some now2 \<and> result e = req_result data2) \<and>
               (\<forall>ex. find (\<lambda>e. execution_id e = eid) (test_executions s) = Some ex \<longrightarrow>
                   (\<forall>t\<in>set (test_cases s2). tc_id t = test_id ex \<longrightarrow> tc_status t = st2)) \<and>
               map execution_id (test_executions s2) = map execution_id (test_executions s) \<and>
               map tc_id (test_cases s2) = map tc_id (test_cases s)"
    using ex2 tc2 ids tids by (intro exI [where x = ?s2] conjI refl)
  with mem show ?thesis
    unfolding upd snd_conv fst_conv upd2 by simp
qed

theorem update_test_not_found_iff_witness:
  "''e1'' \<in> set (map execution_id (test_executions store_one_running)) \<and>
   fst (update_test (Some store_one_running)
       \<lparr>req_execution_id = Some ''e1'', req_status = Some ''completed'', req_result = None\<rparr> 8)
     = (200, Message ''Test status updated'') \<and>
   fst (update_test (snd (update_test (Some store_one_running)
       \<lparr>req_execution_id = Some ''e1'', req_status = Some ''completed'', req_result = None\<rparr> 8))
       \<lparr>req_execution_id = Some ''e1'', req_status = Some ''failed'', req_result = None\<rparr> 9)
     = (200, Message ''Test status updated'') \<and>
   (\<exists>s2. snd (update_test (snd (update_test (Some store_one_running)
       \<lparr>req_execution_id = Some ''e1'', req_status = Some ''completed'', req_result = None\<rparr> 8))
       \<lparr>req_execution_id = Some ''e1'', req_status = Some ''failed'', req_result = None\<rparr> 9)
        = Some s2 \<and>
      (\<forall>e\<in>set (test_executions s2). execution_id e = ''e1'' \<longrightarrow>
          ex_status e = ''failed'' \<and> end_time e = Some 9 \<and>
          result e = req_result \<lparr>req_execution_id = Some ''e1'', req_status = Some ''failed'',
                                 req_result = None\<rparr>) \<and>
      (\<forall>ex. find (\<lambda>e. execution_id e = ''e1'') (test_executions store_one_running) = Some ex \<longrightarrow>
          (\<forall>t\<in>set (test_cases s2). tc_id t = test_id ex \<longrightarrow> tc_status t = ''failed'')) \<and>
      map execution_id (test_executions s2) =
        map execution_id (test_executions store_one_running) \<and>
      map tc_id (test_cases s2) = map tc_id (test_cases store_one_running))"
proof -
  let ?first = "\<lparr>req_execution_id = Some ''e1'', req_status = Some ''completed'',
                  req_result = None\<rparr>"
  let ?second = "\<lparr>req_execution_id = Some ''e1'', req_status = Some ''failed'',
                   req_result = None\<rparr>"
  let ?rest = "fst (update_test (Some store_one_running) ?first 8) =
             (200, Message ''Test status updated'') \<and>
           fst (update_test (snd (update_test (Some store_one_running) ?first 8)) ?second 9) =
             (200, Message ''Test status updated'') \<and>
           (\<exists>s2. snd (update_test (snd (update_test (Some store_one_running) ?first 8))
                     ?second 9) = Some s2 \<and>
              (\<forall>e\<in>set (test_executions s2). execution_id e = ''e1'' \<longrightarrow>
                  ex_status e = ''failed'' \<and> end_time e = Some 9 \<and>
                  result e = req_result ?second) \<and>
              (\<forall>ex. find (\<lambda>e. execution_id e = ''e1'') (test_executions store_one_running)
                      = Some ex \<longrightarrow>
                  (\<forall>t\<in>set (test_cases s2). tc_id t = test_id ex \<longrightarrow>
                      tc_status t = ''failed'')) \<and>
              map execution_id (test_executions s2) =
                map execution_id (test_executions store_one_running) \<and>
              map tc_id (test_cases s2) = map tc_id (test_cases store_one_running))"
  have mem: "''e1'' \<in> set (map execution_id (test_executions store_one_running))"
    by (simp add: store_one_running_def example_execution_def)
  have "(fst (fst (update_test (Some store_one_running) ?first 8)) = 404 \<longleftrightarrow>
           ''e1'' \<notin> set (map execution_id (test_executions store_one_running))) \<and>
        (''e1'' \<in> set (map execution_id (test_executions store_one_running)) \<longrightarrow> ?rest)"
    by (rule update_test_not_found_iff) simp_all
  then have "''e1'' \<in> set (map execution_id (test_executions store_one_running)) \<longrightarrow> ?rest"
    by (rule conjunct2)
  then have "?rest"
    using mem by (rule mp)
  with mem show ?thesis
    by (rule conjI)
qed

section \<open>Properties of \<open>store_in_database\<close>\<close>

lemma insert_tests_test_name:
  "map test_name (insert_tests tests current_time seq) = map pt_test_name tests"
  by (induction tests arbitrary: seq) simp_all

lemma insert_tests_file_path:
  "map file_path (insert_tests tests current_time seq) = map pt_file_path tests"
  by (induction tests arbitrary: seq) simp_all

lemma insert_tests_suite_name:
  "map suite_name (insert_tests tests current_time seq) = map pt_suite_name tests"
  by (induction tests arbitrary: seq) simp_all

lemma insert_tests_status:
  "map tc_status (insert_tests tests current_time seq) = replicate (length tests) ''pending''"
  by (induction tests arbitrary: seq) simp_all

lemma insert_tests_ids:
  "map tc_id (insert_tests tests current_time seq) =
     map (\<lambda>k. seq + 1 + int k) [0..<length tests]"
proof (induction tests arbitrary: seq)
  case Nil
  show ?case by simp
next
  case (Cons test tests)
  have "map (\<lambda>k. seq + 1 + int k) [0..<length (test # tests)] =
        (seq + 1) # map (\<lambda>k. seq + 1 + int (Suc k)) [0..<length tests]"
    by (simp add: map_upt_Suc del: upt_Suc)
  also have "map (\<lambda>k. seq + 1 + int (Suc k)) [0..<length tests] =
        map (\<lambda>k. (seq + 1) + 1 + int k) [0..<length tests]"
    by simp
  finally show ?case
    by (simp add: Cons.IH del: upt_Suc)
qed

text \<open>
  Claim C7, as amended. \<open>store_in_database\<close> always replaces the catalog wholesale:
  the new \<open>test_cases\<close> holds exactly one row per parsed test, in order, with its
  name, path and suite, status \<open>pending\<close> and the next ids of the sequence. It never
  fails and never looks at \<open>test_executions\<close>, which it leaves as it is, running
  executions included.
\<close>

theorem store_in_database_replaces:
  "test_executions (snd (store_in_database s tests current_time)) = test_executions s \<and>
   map test_name (test_cases (snd (store_in_database s tests current_time))) =
     map pt_test_name tests \<and>
   map file_path (test_cases (snd (store_in_database s tests current_time))) =
     map pt_file_path tests \<and>
   map suite_name (test_cases (snd (store_in_database s tests current_time))) =
     map pt_suite_name tests \<and>
   map tc_status (test_cases (snd (store_in_database s tests current_time))) =
     replicate (length tests) ''pending'' \<and>
   map tc_id (test_cases (snd (store_in_database s tests current_time))) =
     map (\<lambda>k. autoinc_seq s + 1 + int k) [0..<length tests]"
  by (simp add: store_in_database_def insert_tests_test_name insert_tests_file_path
      insert_tests_suite_name insert_tests_status insert_tests_ids)

text \<open>
  Seeding while execution \<open>e1\<close> is running: the call returns its row count, the two
  old tests are gone and \<open>e1\<close> is still running, now pointing to a test that no longer
  exists.
\<close>

theorem store_in_database_running_counterexample:
  "map ex_status (test_executions store_one_running) = [''running''] \<and>
   map test_name (test_cases store_one_running) = [''Valid Login'', ''Invalid Login''] \<and>
   store_in_database store_one_running
     [\<lparr>pt_test_name = ''Logout'', pt_file_path = ''tests/logout/logout.robot'',
       pt_suite_name = ''logout''\<rparr>] 50 =
   (1, \<lparr>test_cases = [\<lparr>tc_id = 3, test_name = ''Logout'',
                         file_path = ''tests/logout/logout.robot'', suite_name = ''logout'',
                         parsed_date = 50, tc_status = ''pending''\<rparr>],
         test_executions = [example_execution ''e1'' 1 ''running'' None],
         autoinc_seq = 3\<rparr>)"
  by (simp add: store_in_database_def store_one_running_def example_case_def
      example_execution_def)

section \<open>The completion monitor after a reset\<close>

text \<open>
  \<open>store_after_reset\<close> is what the operations of the system produce: seed two tests,
  claim both, report one completed and one failed, reset.
\<close>

lemma store_after_reset_reachable:
  "snd (reset_tests
     (snd (update_test
       (snd (update_test
         (snd (next_test
           (snd (next_test
             (Some (snd (store_in_database
                \<lparr>test_cases = [], test_executions = [], autoinc_seq = 0\<rparr> example_tests 0)))
             (Some ''pod-a'') ''e1'' 0))
           (Some ''pod-a'') ''e2'' 0))
         \<lparr>req_execution_id = Some ''e1'', req_status = Some ''completed'', req_result = None\<rparr> 7))
       \<lparr>req_execution_id = Some ''e2'', req_status = Some ''failed'', req_result = None\<rparr> 8)))
   = Some store_after_reset"
  by (simp add: store_in_database_def example_tests_def next_test_def select_pending_def
      claim_commit_def update_case_status_def new_execution_def update_test_def
      select_test_id_def update_execution_def reset_tests_def reset_statuses_def
      store_after_reset_def example_case_def example_execution_def)

text \<open>
  Claim C4 at that store. Both tests are pending, so the terminal condition (no test
  pending or running, which is what \<open>check_test_completion\<close> computes) does not hold.
  \<open>get_test_status\<close> compares the number of tests with the number of finished
  execution records, finds 2 = 2, and \<open>monitor_and_merge\<close> runs the merge at its first
  read.
\<close>

theorem get_test_status_after_reset:
  "map tc_status (test_cases store_after_reset) = [''pending'', ''pending''] \<and>
   \<not> check_test_completion store_after_reset \<and>
   get_test_status (Some store_after_reset) =
     Some \<lparr>st_total = 2, st_finished = 2, st_passed = 1, st_failed = 1, all_completed = True\<rparr> \<and>
   monitor_and_merge [Some store_after_reset] True = Some MergerCompleted"
  by (simp add: get_test_status_def count_executions_def check_test_completion_def
      store_after_reset_def example_case_def example_execution_def)

section \<open>Properties of the worker loop\<close>

lemma get_next_test_loop_transient:
  assumes "resp attempt \<in> {RequestException, Status500DatabaseError}"
    and "attempt < max_retries - 1"
  shows "get_next_test_loop (Suc k) resp attempt retry_delay time_bound slept =
         get_next_test_loop k resp (attempt + 1) (retry_delay * 2) True (slept @ [retry_delay])"
proof (cases "resp attempt = RequestException")
  case True
  with assms(2) show ?thesis by simp
next
  case False
  with assms(1) have "resp attempt = Status500DatabaseError" by simp
  then show ?thesis by simp
qed

lemma get_next_test_loop_last:
  assumes "resp attempt \<in> {RequestException, Status500DatabaseError}"
    and "\<not> attempt < max_retries - 1"
  shows "get_next_test_loop (Suc 0) resp attempt retry_delay time_bound slept =
         (Returned None,
          if resp attempt = Status500DatabaseError then slept @ [retry_delay] else slept)"
proof (cases "resp attempt = RequestException")
  case True
  with assms(2) show ?thesis by simp
next
  case False
  with assms(1) have "resp attempt = Status500DatabaseError" by simp
  then show ?thesis by simp
qed

text \<open>
  Claim C5, as amended. When every attempt fails with a \<open>RequestException\<close> or a 500
  \<open>Database error\<close>, \<open>get_next_test\<close> makes three attempts, sleeping 1 and 2
  seconds between them (and 4 after a last \<open>Database error\<close>), and then returns
  \<open>None\<close>. The loop of \<open>main\<close> takes that \<open>None\<close> for \<open>No more tests available\<close>:
  it breaks, \<open>main\<close> returns and the process ends with status 0.
\<close>

theorem get_next_test_exhausted:
  assumes "\<forall>attempt<max_retries. resp attempt \<in> {RequestException, Status500DatabaseError}"
  shows "get_next_test resp =
           (Returned None, if resp 2 = Status500DatabaseError then [1, 2, 4] else [1, 2]) \<and>
         main_loop (resp # resps) tests_run = Some (TestRunnerCompleted tests_run) \<and>
         exit_status (TestRunnerCompleted tests_run) = 0"
proof -
  from assms have r0: "resp 0 \<in> {RequestException, Status500DatabaseError}"
    and r1: "resp (0 + 1) \<in> {RequestException, Status500DatabaseError}"
    and r2: "resp (0 + 1 + 1) \<in> {RequestException, Status500DatabaseError}"
    by (simp_all add: max_retries_def)
  have "get_next_test resp = get_next_test_loop (Suc (Suc (Suc 0))) resp 0 1 False []"
    by (simp add: get_next_test_def max_retries_def numeral_3_eq_3)
  also have "\<dots> = get_next_test_loop (Suc (Suc 0)) resp (0 + 1) (1 * 2) True ([] @ [1])"
    by (rule get_next_test_loop_transient [of resp 0, OF r0]) (simp add: max_retries_def)
  also have "\<dots> = get_next_test_loop (Suc 0) resp (0 + 1 + 1) (1 * 2 * 2) True (([] @ [1]) @ [1 * 2])"
    by (rule get_next_test_loop_transient [of resp "0 + 1", OF r1]) (simp add: max_retries_def)
  also have "\<dots> = (Returned None,
      if resp (0 + 1 + 1) = Status500DatabaseError then (([] @ [1]) @ [1 * 2]) @ [1 * 2 * 2]
      else ([] @ [1]) @ [1 * 2])"
    by (rule get_next_test_loop_last [of resp "0 + 1 + 1", OF r2]) (simp add: max_retries_def)
  finally have g: "get_next_test resp =
      (Returned None, if resp 2 = Status500DatabaseError then [1, 2, 4] else [1, 2])"
    by (simp add: numeral_2_eq_2)
  then have "main_loop (resp # resps) tests_run = Some (TestRunnerCompleted tests_run)"
    by simp
  with g show ?thesis
    by simp
qed

theorem get_next_test_exhausted_witness:
  "get_next_test (\<lambda>attempt. if attempt = 2 then Status500DatabaseError
                              else RequestException :: (string \<times> string) list api_response) =
     (Returned None, [1, 2, 4]) \<and>
   main_loop [\<lambda>attempt. if attempt = 2 then Status500DatabaseError
                          else RequestException :: (string \<times> string) list api_response] 0 =
     Some (TestRunnerCompleted 0) \<and>
   exit_status (TestRunnerCompleted 0) = 0"
proof -
  let ?resp = "\<lambda>attempt::nat. if attempt = 2 then Status500DatabaseError
                              else RequestException :: (string \<times> string) list api_response"
  have h: "\<forall>attempt<max_retries. ?resp attempt \<in> {RequestException, Status500DatabaseError}"
    by simp
  have "get_next_test ?resp =
          (Returned None, if ?resp 2 = Status500DatabaseError then [1, 2, 4] else [1, 2]) \<and>
        main_loop (?resp # []) 0 = Some (TestRunnerCompleted 0) \<and>
        exit_status (TestRunnerCompleted 0) = 0"
    by (rule get_next_test_exhausted [OF h])
  then show ?thesis
    by simp
qed

text \<open>
  An unreachable coordinator and a coordinator with no work left end the worker the same
  way: \<open>Test runner completed\<close>, exit status 0.
\<close>

theorem worker_exhaustion_counterexample:
  "get_next_test (\<lambda>attempt. RequestException :: (string \<times> string) list api_response) = (Returned None, [1, 2]) \<and>
   get_next_test (\<lambda>attempt. Status404 :: (string \<times> string) list api_response) = (Returned None, []) \<and>
   main_loop [\<lambda>attempt. RequestException :: (string \<times> string) list api_response] 0 = Some (TestRunnerCompleted 0) \<and>
   main_loop [\<lambda>attempt. Status404 :: (string \<times> string) list api_response] 0 = Some (TestRunnerCompleted 0) \<and>
   exit_status (TestRunnerCompleted 0) = 0"
  by (simp add: get_next_test_def max_retries_def numeral_3_eq_3)

text \<open>
  Any other status at the first attempt (for instance the 500 \<open>Database not found\<close> of
  the server) reaches \<open>time.sleep\<close> before any \<open>import time\<close> has run.
\<close>

lemma get_next_test_other_status_first:
  "get_next_test (\<lambda>attempt. StatusOther 502 :: (string \<times> string) list api_response) = (UnboundLocalError, [])"
  by (simp add: get_next_test_def max_retries_def numeral_3_eq_3)

text \<open>
  A 200 answer with an empty JSON object ends the loop like \<open>None\<close>; one without the
  key \<open>test_name\<close> ends \<open>main\<close> through its \<open>except\<close> clause.
\<close>

lemma main_loop_falsy_payload:
  "main_loop [\<lambda>attempt. Status200 ([] :: (string \<times> string) list)] 0 =
     Some (TestRunnerCompleted 0) \<and>
   main_loop [\<lambda>attempt. Status200 [(''test_id'', ''1'')]] 0 = Some ExceptionInMain"
  by (simp add: get_next_test_def max_retries_def numeral_3_eq_3)

end
